theory Spec2Isabelle
  imports Complex_Main "HOL-Library.Multiset"
begin

section \<open>Jump Dash: a shallow embedding of script.js\<close>

text \<open>
  The game is one JavaScript file. Every class of it that holds game logic is embedded
  here as a record with one HOL function per method; a method takes the object and
  returns the updated object together with the list of effects it performed on the
  outside world, in the order the source performs them.

  JavaScript numbers are modelled as rationals: \<open>+\<close>, \<open>-\<close>, \<open>*\<close> and \<open>/\<close> are exact here,
  where the browser rounds to binary64. The numbers of the concrete evaluations below
  are chosen so that binary64 arithmetic gives the same values, and no general theorem
  rests on two computed numbers being equal.

  Writes to element styles and texts are presentation that no code path reads back;
  they are not part of the model. What the code reads from the document (bounding
  rectangles, the container width) is an input of the frame.
\<close>

type_synonym number = rat

subsection \<open>Configuration constants, game states, settings\<close>

definition GROUND_LEVEL :: number where "GROUND_LEVEL = 10"
definition CHARACTER_JUMP_POWER :: number where "CHARACTER_JUMP_POWER = 12"
definition CHARACTER_GRAVITY :: number where "CHARACTER_GRAVITY = - (6 / 10)"
definition COYOTE_THRESHOLD :: number where "COYOTE_THRESHOLD = 6"
definition INITIAL_OBSTACLE_SPEED :: number where "INITIAL_OBSTACLE_SPEED = 5"
definition INITIAL_SPAWN_INTERVAL :: number where "INITIAL_SPAWN_INTERVAL = 2000"
definition MIN_SPAWN_INTERVAL :: number where "MIN_SPAWN_INTERVAL = 800"
definition SCORE_RATE :: number where "SCORE_RATE = 10"
definition FPS_SCALE :: number where "FPS_SCALE = 60"

lemmas CONFIG_defs =
  GROUND_LEVEL_def CHARACTER_JUMP_POWER_def CHARACTER_GRAVITY_def COYOTE_THRESHOLD_def
  INITIAL_OBSTACLE_SPEED_def INITIAL_SPAWN_INTERVAL_def MIN_SPAWN_INTERVAL_def
  SCORE_RATE_def FPS_SCALE_def

datatype GameState = HOME | RUNNING | PAUSED | GAMEOVER

text \<open>
  The global \<open>SETTINGS\<close> object, and whether the browser has \<open>navigator.vibrate\<close>.
\<close>

record settings =
  audio :: bool
  haptics :: bool
  can_vibrate :: bool

text \<open>
  What a method does to the outside world: the events it dispatches on \<open>window\<close>, the
  vibrations it asks for, the landing callback, the frames it requests and its calls to
  the audio manager.
\<close>

datatype effect =
    Dispatch string
  | Vibrate nat
  | OnLand
  | RequestAnimationFrame
  | BgMusicPlay
  | BgMusicPause
  | StopDeathSound

subsection \<open>Character\<close>

record Character =
  groundLevel :: number
  jumpPower :: number
  gravity :: number
  velocityY :: number
  yPos :: number
  isJumping :: bool
  coyoteThreshold :: number
  coyoteCounter :: number
  onLand :: bool \<comment> \<open>whether a landing callback was given\<close>

definition new_Character :: "number \<Rightarrow> bool \<Rightarrow> Character" where
  "new_Character ground cb =
     \<lparr> groundLevel = ground,
       jumpPower = CHARACTER_JUMP_POWER,
       gravity = CHARACTER_GRAVITY,
       velocityY = 0,
       yPos = ground,
       isJumping = False,
       coyoteThreshold = COYOTE_THRESHOLD,
       coyoteCounter = COYOTE_THRESHOLD,
       onLand = cb \<rparr>"

definition jump :: "Character \<Rightarrow> Character \<times> effect list" where
  "jump c =
     (if isJumping c \<and> coyoteCounter c \<le> 0 then (c, [])
      else (c\<lparr> isJumping := True, velocityY := jumpPower c, coyoteCounter := 0 \<rparr>,
            [Dispatch ''playerJump'']))"

text \<open>The first statement of \<open>update\<close>: refill or count down the coyote counter.\<close>

definition tick_coyote :: "Character \<Rightarrow> Character" where
  "tick_coyote c =
     (if yPos c = groundLevel c then c\<lparr> coyoteCounter := coyoteThreshold c \<rparr>
      else if coyoteCounter c > 0 then c\<lparr> coyoteCounter := coyoteCounter c - 1 \<rparr>
      else c)"

text \<open>The two assignments that integrate gravity and velocity.\<close>

definition integrate :: "Character \<Rightarrow> Character" where
  "integrate c =
     (let c1 = c\<lparr> velocityY := velocityY c + gravity c \<rparr>
      in c1\<lparr> yPos := yPos c1 + velocityY c1 \<rparr>)"

definition update :: "settings \<Rightarrow> Character \<Rightarrow> Character \<times> effect list" where
  "update s c =
     (let c2 = integrate (tick_coyote c) in
      if yPos c2 < groundLevel c2 then
        (c2\<lparr> yPos := groundLevel c2, velocityY := 0, isJumping := False \<rparr>,
         (if isJumping c2 \<and> onLand c2
          then [OnLand, Dispatch ''playerLand''] @
               (if haptics s \<and> can_vibrate s then [Vibrate 50] else [])
          else []))
      else (c2, []))"






subsection \<open>Obstacle manager\<close>

text \<open>
  An obstacle element is a document node; the model names it by a number. The manager
  record carries two facts of the document beside the fields of the class: how many
  obstacle elements \<open>document.createElement\<close> has made so far (the next one gets that
  number), and which of them are attached to the container (\<open>parentNode\<close> is set).
\<close>

record obstacle =
  element :: nat
  position :: number

record ObstacleManager =
  obstacleSpeed :: number
  spawnInterval :: number
  activeObstacles :: "obstacle list"
  pool :: "nat list"
  timeSinceLastSpawn :: number
  minSpawnGap :: number
  created :: nat
  attached :: "nat set"

definition new_ObstacleManager :: "number \<Rightarrow> number \<Rightarrow> ObstacleManager" where
  "new_ObstacleManager initialSpeed interval =
     \<lparr> obstacleSpeed = initialSpeed,
       spawnInterval = interval,
       activeObstacles = [],
       pool = [],
       timeSinceLastSpawn = 0,
       minSpawnGap = 1500,
       created = 0,
       attached = {} \<rparr>"

text \<open>
  The body of the \<open>for\<close> loop of \<open>update\<close> at index \<open>i\<close>: move the obstacle, and if it
  left the screen detach it, push its element on the pool and splice it out.
\<close>

definition scroll_at :: "number \<Rightarrow> nat \<Rightarrow> ObstacleManager \<Rightarrow> ObstacleManager" where
  "scroll_at deltaTime i om =
     (let obs = activeObstacles om ! i;
          obs' = obs\<lparr> position := position obs - obstacleSpeed om * deltaTime * FPS_SCALE \<rparr>;
          om1 = om\<lparr> activeObstacles := (activeObstacles om)[i := obs'] \<rparr>
      in if position obs' < - 30 then
           om1\<lparr> attached := attached om1 - {element obs'},
                pool := pool om1 @ [element obs'],
                activeObstacles := take i (activeObstacles om1) @ drop (Suc i) (activeObstacles om1) \<rparr>
         else om1)"

text \<open>
  The loop \<open>for (let i = length - 1; i >= 0; i--)\<close>: \<open>scroll_loop dt n\<close> runs the body at
  the indices \<open>n - 1\<close> down to \<open>0\<close>. The source starts it at the length of the active
  list, and a splice at \<open>i\<close> leaves the indices below \<open>i\<close> in place, so every index read
  is in range (lemma \<open>scroll_loop_eq\<close> gives the result without any index).
\<close>

fun scroll_loop :: "number \<Rightarrow> nat \<Rightarrow> ObstacleManager \<Rightarrow> ObstacleManager" where
  "scroll_loop deltaTime 0 om = om"
| "scroll_loop deltaTime (Suc i) om = scroll_loop deltaTime i (scroll_at deltaTime i om)"

definition spawnObstacle :: "number \<Rightarrow> ObstacleManager \<Rightarrow> ObstacleManager" where
  "spawnObstacle offsetWidth om =
     (let (obsElem, om1) =
            (if length (pool om) > 0 then (last (pool om), om\<lparr> pool := butlast (pool om) \<rparr>)
             else (created om, om\<lparr> created := Suc (created om) \<rparr>));
          startPos = offsetWidth;
          om2 = (if obsElem \<notin> attached om1
                 then om1\<lparr> attached := insert obsElem (attached om1) \<rparr> else om1)
      in om2\<lparr> activeObstacles :=
                activeObstacles om2 @ [\<lparr> element = obsElem, position = startPos \<rparr>] \<rparr>)"

text \<open>The delay of one \<open>update\<close>, from the draw \<open>r\<close> of \<open>Math.random()\<close>.\<close>

definition spawnDelay :: "number \<Rightarrow> ObstacleManager \<Rightarrow> number" where
  "spawnDelay r om = max (r * spawnInterval om + 500) (minSpawnGap om)"

text \<open>
  \<open>update(deltaTime)\<close>, with what it reads from outside: the draw of \<open>Math.random()\<close> and
  the container's \<open>offsetWidth\<close>.
\<close>

definition om_update :: "number \<Rightarrow> number \<Rightarrow> number \<Rightarrow> ObstacleManager \<Rightarrow> ObstacleManager" where
  "om_update deltaTime r offsetWidth om =
     (let om1 = scroll_loop deltaTime (length (activeObstacles om)) om;
          om2 = om1\<lparr> timeSinceLastSpawn := timeSinceLastSpawn om1 + deltaTime * 1000 \<rparr>
      in if timeSinceLastSpawn om2 > spawnDelay r om2
         then (spawnObstacle offsetWidth om2)\<lparr> timeSinceLastSpawn := 0 \<rparr>
         else om2)"

definition reset :: "ObstacleManager \<Rightarrow> ObstacleManager" where
  "reset om =
     om\<lparr> attached := attached om - set (map element (activeObstacles om)) - set (pool om),
         activeObstacles := [],
         pool := [],
         timeSinceLastSpawn := 0 \<rparr>"

text \<open>A run of the manager without \<open>reset()\<close>: updates and direct spawns.\<close>

datatype om_call = OmUpdate number number number | OmSpawn number

fun do_om_call :: "om_call \<Rightarrow> ObstacleManager \<Rightarrow> ObstacleManager" where
  "do_om_call (OmUpdate deltaTime r offsetWidth) om = om_update deltaTime r offsetWidth om"
| "do_om_call (OmSpawn offsetWidth) om = spawnObstacle offsetWidth om"

fun run_om_calls :: "om_call list \<Rightarrow> ObstacleManager \<Rightarrow> ObstacleManager" where
  "run_om_calls [] om = om"
| "run_om_calls (x # xs) om = run_om_calls xs (do_om_call x om)"

definition obstacle_count :: "ObstacleManager \<Rightarrow> nat" where
  "obstacle_count om = length (activeObstacles om) + length (pool om)"

text \<open>What one pass of the loop does to an obstacle, and when it is recycled.\<close>

definition moved :: "number \<Rightarrow> ObstacleManager \<Rightarrow> obstacle \<Rightarrow> obstacle" where
  "moved deltaTime om obs =
     obs\<lparr> position := position obs - obstacleSpeed om * deltaTime * FPS_SCALE \<rparr>"

definition off_screen :: "obstacle \<Rightarrow> bool" where
  "off_screen obs = (position obs < - 30)"

subsection \<open>Built-ins of the browser\<close>

text \<open>
  The value of \<open>this.highScore\<close>: the number \<open>0\<close> or a floored score, or the string that
  \<open>localStorage.getItem\<close> returned.
\<close>

datatype js_value = Num number | Str string

text \<open>What \<open>JSON.parse\<close> returns.\<close>

datatype json =
    JNull
  | JBool bool
  | JNum number
  | JStr string
  | JArr "json list"
  | JObj "(string \<times> json) list"

datatype js_error = SyntaxError | TypeError

text \<open>
  The built-in functions that the game calls are not code of the game; the model takes
  them as a parameter, so that a theorem about the game holds whatever they return:
  \<^item> \<open>JSON_parse\<close>: \<open>JSON.parse\<close> on a string, \<open>None\<close> when it throws a syntax error;
  \<^item> \<open>JSON_stringify\<close>: \<open>JSON.stringify\<close>;
  \<^item> \<open>StringToNumber\<close>: the conversion of a string operand of \<open>>\<close>, \<open>None\<close> for \<open>NaN\<close>;
  \<^item> \<open>NumberToString\<close>: the conversion of a number that \<open>setItem\<close> stores;
  \<^item> \<open>sort_converting\<close>: \<open>Array.prototype.sort\<close> with the comparator \<open>(a, b) => b - a\<close> on
    an array that holds an element that is not a number, where the comparator converts
    its operands (and may throw) and the order is left to the implementation.
\<close>

record platform =
  JSON_parse :: "string \<Rightarrow> json option"
  JSON_stringify :: "json \<Rightarrow> string"
  StringToNumber :: "string \<Rightarrow> number option"
  NumberToString :: "number \<Rightarrow> string"
  sort_converting :: "json list \<Rightarrow> js_error + json list"

type_synonym storage = "string \<rightharpoonup> string"

text \<open>The operand of \<open>||\<close>: is a parsed value truthy?\<close>

fun truthy :: "json \<Rightarrow> bool" where
  "truthy JNull = False"
| "truthy (JBool b) = b"
| "truthy (JNum n) = (n \<noteq> 0)"
| "truthy (JStr s) = (s \<noteq> [])"
| "truthy (JArr xs) = True"
| "truthy (JObj kvs) = True"

text \<open>\<open>score > highScore\<close>, where \<open>highScore\<close> may be a string.\<close>

definition greater_js :: "platform \<Rightarrow> number \<Rightarrow> js_value \<Rightarrow> bool" where
  "greater_js P x v =
     (case v of
        Num h \<Rightarrow> x > h
      | Str s \<Rightarrow> (case StringToNumber P s of None \<Rightarrow> False | Some h \<Rightarrow> x > h))"

text \<open>The remainder operator \<open>%\<close> on integers: the sign of the dividend.\<close>

definition js_rem :: "int \<Rightarrow> int \<Rightarrow> int" where
  "js_rem a b = sgn a * (\<bar>a\<bar> mod \<bar>b\<bar>)"

subsection \<open>Leaderboard\<close>

text \<open>\<open>localStorage.getItem("highScore") || 0\<close>\<close>

definition load_highScore :: "storage \<Rightarrow> js_value" where
  "load_highScore st =
     (case st ''highScore'' of
        None \<Rightarrow> Num 0
      | Some s \<Rightarrow> if s = [] then Num 0 else Str s)"

text \<open>
  \<open>JSON.parse(localStorage.getItem("leaderboard")) || []\<close>, followed by the first use of
  the value as an array (\<open>push\<close>, \<open>forEach\<close>): \<open>JSON.parse\<close> converts the \<open>null\<close> of a
  missing key to the text \<open>null\<close>; a value that is truthy and not an array has no such
  method, and the call throws a type error.
\<close>

definition load_leaderboard :: "platform \<Rightarrow> storage \<Rightarrow> js_error + json list" where
  "load_leaderboard P st =
     (case JSON_parse P (case st ''leaderboard'' of None \<Rightarrow> ''null'' | Some s \<Rightarrow> s) of
        None \<Rightarrow> Inl SyntaxError
      | Some v \<Rightarrow>
          (case (if truthy v then v else JArr []) of
             JArr xs \<Rightarrow> Inr xs
           | _ \<Rightarrow> Inl TypeError))"

text \<open>
  \<open>sort((a, b) => b - a)\<close> on numbers: a stable insertion sort into descending order.
  (Every sort that ECMAScript allows returns this list on numbers.)
\<close>

fun insert_desc :: "number \<Rightarrow> number list \<Rightarrow> number list" where
  "insert_desc x [] = [x]"
| "insert_desc x (y # ys) = (if y - x < 0 then x # y # ys else y # insert_desc x ys)"

fun sort_numbers :: "number list \<Rightarrow> number list" where
  "sort_numbers [] = []"
| "sort_numbers (x # xs) = insert_desc x (sort_numbers xs)"

fun number_of :: "json \<Rightarrow> number option" where
  "number_of (JNum n) = Some n"
| "number_of _ = None"

fun numbers_of :: "json list \<Rightarrow> number list option" where
  "numbers_of [] = Some []"
| "numbers_of (x # xs) =
     (case number_of x of
        None \<Rightarrow> None
      | Some n \<Rightarrow> (case numbers_of xs of None \<Rightarrow> None | Some ns \<Rightarrow> Some (n # ns)))"

definition sort_desc :: "platform \<Rightarrow> json list \<Rightarrow> js_error + json list" where
  "sort_desc P xs =
     (case numbers_of xs of
        Some ns \<Rightarrow> Inr (map JNum (sort_numbers ns))
      | None \<Rightarrow> sort_converting P xs)"

definition updateLeaderboard :: "platform \<Rightarrow> number \<Rightarrow> storage \<Rightarrow> js_error + storage" where
  "updateLeaderboard P sc st =
     (case load_leaderboard P st of
        Inl e \<Rightarrow> Inl e
      | Inr leaderboard \<Rightarrow>
          (case sort_desc P (leaderboard @ [JNum sc]) of
             Inl e \<Rightarrow> Inl e
           | Inr sorted_lb \<Rightarrow>
               Inr (st(''leaderboard'' \<mapsto> JSON_stringify P (JArr (take 5 sorted_lb))))))"

text \<open>\<open>showLeaderboard\<close> returns the entries it lists, in order.\<close>

definition showLeaderboard :: "platform \<Rightarrow> storage \<Rightarrow> js_error + json list" where
  "showLeaderboard P st = load_leaderboard P st"

subsection \<open>Game\<close>

text \<open>
  The fields of the class that hold game data, and the browser's \<open>localStorage\<close>. The
  fields \<open>obstacleSpeed\<close> and \<open>spawnInterval\<close> of the game are named \<open>game_obstacleSpeed\<close>
  and \<open>game_spawnInterval\<close> here, since the obstacle manager has fields of the same names.
\<close>

record Game =
  state :: GameState
  score :: number
  highScore :: js_value
  level :: number
  game_obstacleSpeed :: number
  game_spawnInterval :: number
  lastFrameTime :: number
  character :: Character
  obstacleManager :: ObstacleManager
  localStorage :: storage

text \<open>The constructor, at the time \<open>now\<close> of \<open>performance.now()\<close>.\<close>

definition new_Game :: "settings \<Rightarrow> number \<Rightarrow> storage \<Rightarrow> Game \<times> effect list" where
  "new_Game s now st =
     (\<lparr> state = HOME,
        score = 0,
        highScore = load_highScore st,
        level = 1,
        game_obstacleSpeed = INITIAL_OBSTACLE_SPEED,
        game_spawnInterval = INITIAL_SPAWN_INTERVAL,
        lastFrameTime = now,
        character = new_Character GROUND_LEVEL True,
        obstacleManager = new_ObstacleManager INITIAL_OBSTACLE_SPEED INITIAL_SPAWN_INTERVAL,
        localStorage = st \<rparr>,
      (if audio s then [BgMusicPlay] else []))"

definition startGame :: "settings \<Rightarrow> number \<Rightarrow> Game \<Rightarrow> Game \<times> effect list" where
  "startGame s now g =
     (g\<lparr> state := RUNNING, lastFrameTime := now \<rparr>,
      [RequestAnimationFrame] @ (if audio s then [BgMusicPlay] else []))"

definition levelUp :: "Game \<Rightarrow> Game" where
  "levelUp g = g\<lparr> level := level g + 1, game_obstacleSpeed := game_obstacleSpeed g + 1 \<rparr>"

definition pause :: "Game \<Rightarrow> Game \<times> effect list" where
  "pause g = (g\<lparr> state := PAUSED \<rparr>, [BgMusicPause])"

definition resume :: "settings \<Rightarrow> number \<Rightarrow> Game \<Rightarrow> Game \<times> effect list" where
  "resume s now g =
     (g\<lparr> state := RUNNING, lastFrameTime := now \<rparr>,
      [RequestAnimationFrame] @ (if audio s then [BgMusicPlay] else []))"

text \<open>
  \<open>gameOver\<close>. An exception of \<open>updateLeaderboard\<close> or \<open>showLeaderboard\<close> leaves the method
  at once: the third component is what was thrown, and the state keeps the assignments
  made before.
\<close>

definition gameOver :: "platform \<Rightarrow> settings \<Rightarrow> Game \<Rightarrow> Game \<times> effect list \<times> js_error option" where
  "gameOver P s g =
     (let g1 = g\<lparr> state := GAMEOVER \<rparr> in
      case updateLeaderboard P (of_int \<lfloor>score g1\<rfloor>) (localStorage g1) of
        Inl e \<Rightarrow> (g1, [], Some e)
      | Inr st \<Rightarrow>
          (let g2 = g1\<lparr> localStorage := st \<rparr> in
           case showLeaderboard P (localStorage g2) of
             Inl e \<Rightarrow> (g2, [], Some e)
           | Inr shown \<Rightarrow>
               (g2,
                (if haptics s \<and> can_vibrate s then [Vibrate 100] else [])
                  @ [BgMusicPause, StopDeathSound],
                None)))"

text \<open>Bounding rectangles, as \<open>getBoundingClientRect\<close> returns them.\<close>

record rect =
  rect_left :: number
  rect_right :: number
  rect_top :: number
  rect_bottom :: number

text \<open>The condition of the \<open>if\<close> in the collision loop.\<close>

definition overlaps :: "rect \<Rightarrow> rect \<Rightarrow> bool" where
  "overlaps charRect obsRect =
     (rect_right charRect > rect_left obsRect
      \<and> rect_left charRect < rect_right obsRect
      \<and> rect_bottom charRect > rect_top obsRect)"

text \<open>
  What one frame reads from outside: the time stamp of the callback, the draw of
  \<open>Math.random()\<close>, the container width, and the rectangles of the character and of
  each obstacle element after the positions of this frame were written.
\<close>

record frame =
  currentTime :: number
  random :: number
  offsetWidth :: number
  charRect :: rect
  obsRect :: "nat \<Rightarrow> rect"

text \<open>The part of \<open>gameLoop\<close> after the collision loop found nothing.\<close>

definition progress :: "platform \<Rightarrow> number \<Rightarrow> Game \<Rightarrow> Game" where
  "progress P deltaTime g =
     (let g1 = g\<lparr> score := score g + deltaTime * SCORE_RATE \<rparr>;
          g2 = (if greater_js P (score g1) (highScore g1)
                then g1\<lparr> highScore := Num (of_int \<lfloor>score g1\<rfloor>),
                         localStorage := (localStorage g1)
                           (''highScore'' \<mapsto> NumberToString P (of_int \<lfloor>score g1\<rfloor>)) \<rparr>
                else g1);
          g3 = g2\<lparr> game_spawnInterval :=
                     max MIN_SPAWN_INTERVAL (INITIAL_SPAWN_INTERVAL - score g2 / 5) \<rparr>;
          g4 = g3\<lparr> obstacleManager :=
                     (obstacleManager g3)\<lparr> spawnInterval := game_spawnInterval g3 \<rparr> \<rparr>
      in if js_rem \<lfloor>score g4\<rfloor> 1000 = 0 \<and> \<lfloor>score g4\<rfloor> \<noteq> 0 then levelUp g4 else g4)"

text \<open>
  The statements of \<open>gameLoop\<close> from the time step to the two \<open>update\<close> calls: the
  game they leave, the time step and the effects of the character's update.
\<close>

definition advance :: "settings \<Rightarrow> frame \<Rightarrow> Game \<Rightarrow> Game \<times> number \<times> effect list" where
  "advance s f g =
     (let deltaTime = (currentTime f - lastFrameTime g) / 1000;
          g1 = g\<lparr> lastFrameTime := currentTime f \<rparr>;
          (c, es) = update s (character g1);
          g2 = g1\<lparr> character := c \<rparr>;
          g3 = g2\<lparr> obstacleManager :=
                     om_update deltaTime (random f) (offsetWidth f) (obstacleManager g2) \<rparr>
      in (g3, deltaTime, es))"

text \<open>
  The collision loop: the first active obstacle whose rectangle overlaps the
  character's, if there is one.
\<close>

definition first_hit :: "frame \<Rightarrow> Game \<Rightarrow> obstacle option" where
  "first_hit f g =
     find (\<lambda>obs. overlaps (charRect f) (obsRect f (element obs)))
       (activeObstacles (obstacleManager g))"

text \<open>
  \<open>gameLoop(currentTime)\<close>. At the first hit the loop dispatches the collision event,
  calls \<open>gameOver\<close> and returns; without a hit the frame goes on to the score and
  requests the next frame.
\<close>

definition gameLoop ::
  "platform \<Rightarrow> settings \<Rightarrow> frame \<Rightarrow> Game \<Rightarrow> Game \<times> effect list \<times> js_error option" where
  "gameLoop P s f g =
     (if state g \<noteq> RUNNING then (g, [], None)
      else
        let (g3, deltaTime, es) = advance s f g
        in case first_hit f g3 of
             Some obs \<Rightarrow>
               (let (g4, es', thrown) = gameOver P s g3
                in (g4, es @ [Dispatch ''playerCollision''] @ es', thrown))
           | None \<Rightarrow> (progress P deltaTime g3, es @ [RequestAnimationFrame], None))"

definition restart :: "settings \<Rightarrow> number \<Rightarrow> Game \<Rightarrow> Game \<times> effect list" where
  "restart s now g =
     (g\<lparr> state := RUNNING,
         score := 0,
         level := 1,
         game_obstacleSpeed := INITIAL_OBSTACLE_SPEED,
         game_spawnInterval := INITIAL_SPAWN_INTERVAL,
         obstacleManager := reset (obstacleManager g),
         character := (character g)\<lparr> yPos := groundLevel (character g),
                                       velocityY := 0, isJumping := False \<rparr>,
         lastFrameTime := now \<rparr>,
      [RequestAnimationFrame] @ (if audio s then [BgMusicPlay] else []))"

text \<open>The difficulty formula, as a property of a game: the spawn interval follows from
  the score, and the obstacle manager has the same interval.\<close>

definition interval_ok :: "Game \<Rightarrow> bool" where
  "interval_ok g =
     (game_spawnInterval g = max 800 (2000 - score g / 5)
      \<and> spawnInterval (obstacleManager g) = game_spawnInterval g)"

text \<open>
  The \<open>keydown\<close> listener of the input handler: space and the up arrow jump while the
  game runs; \<open>p\<close> in either case pauses a running game and resumes a paused one.
\<close>

definition keydown :: "settings \<Rightarrow> number \<Rightarrow> string \<Rightarrow> Game \<Rightarrow> Game \<times> effect list" where
  "keydown s now key g =
     (let (g1, es) =
            (if (key = '' '' \<or> key = ''ArrowUp'') \<and> state g = RUNNING
             then (let (c, es) = jump (character g) in (g\<lparr> character := c \<rparr>, es))
             else (g, []))
      in if key = ''p'' \<or> key = ''P'' then
           (if state g1 = RUNNING then (let (g2, es') = pause g1 in (g2, es @ es'))
            else if state g1 = PAUSED then (let (g2, es') = resume s now g1 in (g2, es @ es'))
            else (g1, es))
         else (g1, es))"

text \<open>
  Frames that arrive one after the other, as long as nothing is thrown. (A frame that
  does not request the next one ends the chain in the browser; running \<open>gameLoop\<close> on a
  game that is not running changes nothing, so the model may run it all the same.)
\<close>

fun gameLoops :: "platform \<Rightarrow> settings \<Rightarrow> frame list \<Rightarrow> Game \<Rightarrow> Game" where
  "gameLoops P s [] g = g"
| "gameLoops P s (f # fs) g = gameLoops P s fs (fst (gameLoop P s f g))"

subsection \<open>A reference browser for the examples\<close>

text \<open>
  The examples below run the game on one fixed instance of the built-ins. It agrees
  with a browser on the values and texts that the examples meet: integers below
  \<open>10^21\<close> in size, the JSON texts built from \<open>null\<close>, \<open>true\<close>, \<open>false\<close>, integers and
  arrays of these, and the texts that are not JSON, which it rejects as a browser does.
  It is not a browser elsewhere: it rejects a JSON text with a string, an object, a
  fraction or an exponent, it reads no fraction in a string operand, and it leaves an
  array with an element that is not a number in its order. Every theorem that speaks
  of all stored texts is stated for an arbitrary \<open>platform\<close> instead.
\<close>

definition digit_chars :: string where
  "digit_chars = ''0123456789''"

function nat_text :: "nat \<Rightarrow> string" where
  "nat_text n =
     (if n < 10 then [digit_chars ! n] else nat_text (n div 10) @ [digit_chars ! (n mod 10)])"
  by pat_completeness auto
termination
  by (relation "measure id") auto

declare nat_text.simps [simp del]

definition int_text :: "int \<Rightarrow> string" where
  "int_text i = (if i < 0 then CHR ''-'' # nat_text (nat (- i)) else nat_text (nat i))"

definition number_text :: "number \<Rightarrow> string" where
  "number_text q =
     (let (n, d) = quotient_of q
      in if d = 1 then int_text n else int_text n @ ''/'' @ int_text d)"

text \<open>The place of a character in a text, counted from \<open>i\<close>.\<close>

fun place_of :: "char \<Rightarrow> string \<Rightarrow> nat \<Rightarrow> nat option" where
  "place_of c [] i = None"
| "place_of c (d # ds) i = (if c = d then Some i else place_of c ds (Suc i))"

definition digit_value :: "char \<Rightarrow> nat option" where
  "digit_value c = place_of c digit_chars 0"

text \<open>The digits at the front of a text, read as a number, and the rest of the text.\<close>

fun read_digits :: "nat \<Rightarrow> string \<Rightarrow> nat \<times> string" where
  "read_digits acc [] = (acc, [])"
| "read_digits acc (c # cs) =
     (case digit_value c of
        None \<Rightarrow> (acc, c # cs)
      | Some d \<Rightarrow> read_digits (10 * acc + d) cs)"

text \<open>A JSON integer: an optional minus sign, then \<open>0\<close> or digits that do not start with \<open>0\<close>.\<close>

definition read_int :: "string \<Rightarrow> (int \<times> string) option" where
  "read_int cs =
     (let (neg, ds) =
            (case cs of
               [] \<Rightarrow> (False, [])
             | c # r \<Rightarrow> if c = CHR ''-'' then (True, r) else (False, cs))
      in case ds of
           [] \<Rightarrow> None
         | c # r \<Rightarrow>
             (case digit_value c of
                None \<Rightarrow> None
              | Some d \<Rightarrow>
                  if d = 0 then Some (0, r)
                  else (let (n, rest) = read_digits 0 ds
                        in Some (if neg then - int n else int n, rest))))"

fun skip_ws :: "string \<Rightarrow> string" where
  "skip_ws [] = []"
| "skip_ws (c # cs) =
     (if c = CHR '' '' \<or> c = CHR 0x09 \<or> c = CHR 0x0A \<or> c = CHR 0x0D
      then skip_ws cs else c # cs)"

definition strip_prefix :: "string \<Rightarrow> string \<Rightarrow> string option" where
  "strip_prefix p cs = (if take (length p) cs = p then Some (drop (length p) cs) else None)"

text \<open>
  A recursive descent over the text; the first argument bounds the depth of the
  recursion, and the length of the text is always enough.
\<close>

fun read_value :: "nat \<Rightarrow> string \<Rightarrow> (json \<times> string) option"
  and read_elements :: "nat \<Rightarrow> string \<Rightarrow> (json list \<times> string) option" where
  "read_value 0 cs = None"
| "read_value (Suc k) cs =
     (let cs1 = skip_ws cs in
      case strip_prefix ''null'' cs1 of Some r \<Rightarrow> Some (JNull, r) | None \<Rightarrow>
      (case strip_prefix ''true'' cs1 of Some r \<Rightarrow> Some (JBool True, r) | None \<Rightarrow>
      (case strip_prefix ''false'' cs1 of Some r \<Rightarrow> Some (JBool False, r) | None \<Rightarrow>
      (case strip_prefix ''['' cs1 of
        Some r \<Rightarrow>
          (case strip_prefix '']'' (skip_ws r) of
             Some r' \<Rightarrow> Some (JArr [], r')
           | None \<Rightarrow>
               (case read_elements k r of
                  None \<Rightarrow> None
                | Some (vs, r') \<Rightarrow> Some (JArr vs, r')))
      | None \<Rightarrow>
          (case read_int cs1 of
             None \<Rightarrow> None
           | Some (i, r) \<Rightarrow> Some (JNum (of_int i), r))))))"
| "read_elements 0 cs = None"
| "read_elements (Suc k) cs =
     (case read_value k cs of
        None \<Rightarrow> None
      | Some (v, r) \<Rightarrow>
          (let r1 = skip_ws r in
           case strip_prefix '','' r1 of
             Some r' \<Rightarrow>
               (case read_elements k r' of
                  None \<Rightarrow> None
                | Some (vs, r'') \<Rightarrow> Some (v # vs, r''))
           | None \<Rightarrow>
               (case strip_prefix '']'' r1 of
                  Some r' \<Rightarrow> Some ([v], r')
                | None \<Rightarrow> None)))"

definition parse_text :: "string \<Rightarrow> json option" where
  "parse_text cs =
     (case read_value (Suc (length cs)) cs of
        None \<Rightarrow> None
      | Some (v, r) \<Rightarrow> if skip_ws r = [] then Some v else None)"

fun join :: "string \<Rightarrow> string list \<Rightarrow> string" where
  "join sep [] = []"
| "join sep [x] = x"
| "join sep (x # y # ys) = x @ sep @ join sep (y # ys)"

fun stringify_text :: "json \<Rightarrow> string" where
  "stringify_text JNull = ''null''"
| "stringify_text (JBool b) = (if b then ''true'' else ''false'')"
| "stringify_text (JNum q) = number_text q"
| "stringify_text (JStr s) = [CHR 0x22] @ s @ [CHR 0x22]"
| "stringify_text (JArr vs) = ''['' @ join '','' (map stringify_text vs) @ '']''"
| "stringify_text (JObj kvs) =
     ''{'' @ join '','' (map (\<lambda>(k, v). [CHR 0x22] @ k @ [CHR 0x22] @ '':'' @ stringify_text v) kvs)
       @ ''}''"

text \<open>A string operand as a number: the empty text is \<open>0\<close>, a signed run of digits is its
  value, and everything else counts as \<open>NaN\<close>.\<close>

definition text_number :: "string \<Rightarrow> number option" where
  "text_number cs =
     (let t = rev (skip_ws (rev (skip_ws cs)));
          (neg, ds) =
            (case t of
               [] \<Rightarrow> (False, [])
             | c # r \<Rightarrow>
                 if c = CHR ''-'' then (True, r) else if c = CHR ''+'' then (False, r)
                 else (False, t))
      in if t = [] then Some 0
         else if ds = [] then None
         else (case read_digits 0 ds of
                 (n, []) \<Rightarrow> Some (if neg then - of_nat n else of_nat n)
               | (n, c # r) \<Rightarrow> None))"

definition browser :: platform where
  "browser =
     \<lparr> JSON_parse = parse_text,
       JSON_stringify = stringify_text,
       StringToNumber = text_number,
       NumberToString = number_text,
       sort_converting = Inr \<rparr>"

text \<open>Scores of games that end one after the other, recorded in the order given.\<close>

fun record_scores :: "platform \<Rightarrow> number list \<Rightarrow> storage \<Rightarrow> js_error + storage" where
  "record_scores P [] st = Inr st"
| "record_scores P (sc # scs) st =
     (case updateLeaderboard P sc st of
        Inl e \<Rightarrow> Inl e
      | Inr st' \<Rightarrow> record_scores P scs st')"

text \<open>Example inputs: the settings at their defaults, a rectangle, a frame and a game
  that was started at time \<open>0\<close> on an empty store.\<close>

definition defaults :: settings where
  "defaults = \<lparr> audio = True, haptics = True, can_vibrate = True \<rparr>"

definition box :: "number \<Rightarrow> number \<Rightarrow> number \<Rightarrow> number \<Rightarrow> rect" where
  "box l r t b = \<lparr> rect_left = l, rect_right = r, rect_top = t, rect_bottom = b \<rparr>"

definition frame_at :: "number \<Rightarrow> rect \<Rightarrow> rect \<Rightarrow> frame" where
  "frame_at t c ob =
     \<lparr> currentTime = t, random = 1 / 2, offsetWidth = 800, charRect = c, obsRect = (\<lambda>e. ob) \<rparr>"

definition started :: Game where
  "started = fst (startGame defaults 0 (fst (new_Game defaults 0 Map.empty)))"

section \<open>Character physics\<close>



lemma integrate_fields [simp]:
  "groundLevel (integrate c) = groundLevel c"
  "gravity (integrate c) = gravity c"
  "isJumping (integrate c) = isJumping c"
  "velocityY (integrate c) = velocityY c + gravity c"
  "yPos (integrate c) = yPos c + (velocityY c + gravity c)"
  by (simp_all add: integrate_def Let_def)

lemma tick_coyote_fields [simp]:
  "groundLevel (tick_coyote c) = groundLevel c"
  "gravity (tick_coyote c) = gravity c"
  "isJumping (tick_coyote c) = isJumping c"
  "velocityY (tick_coyote c) = velocityY c"
  "yPos (tick_coyote c) = yPos c"
  by (simp_all add: tick_coyote_def)








text \<open>
  C2. \<open>jump()\<close> changes nothing and signals nothing exactly when the character is
  airborne with the coyote counter at or below zero; in every other state it sets the
  velocity to the jump power, sets the airborne flag, zeroes the coyote counter and
  dispatches the jump event.
\<close>

theorem C2_jump:
  "(jump c = (c, [])) = (isJumping c \<and> coyoteCounter c \<le> 0)
   \<and> (if isJumping c \<and> coyoteCounter c \<le> 0 then jump c = (c, [])
      else velocityY (fst (jump c)) = jumpPower c
         \<and> isJumping (fst (jump c))
         \<and> coyoteCounter (fst (jump c)) = 0
         \<and> snd (jump c) = [Dispatch ''playerJump'']
         \<and> fst (jump c) = c\<lparr> isJumping := True, velocityY := jumpPower c, coyoteCounter := 0 \<rparr>)"
  by (simp add: jump_def)

section \<open>Obstacle stream\<close>

lemma scroll_at_fields [simp]:
  "obstacleSpeed (scroll_at dt i om) = obstacleSpeed om"
  "spawnInterval (scroll_at dt i om) = spawnInterval om"
  "timeSinceLastSpawn (scroll_at dt i om) = timeSinceLastSpawn om"
  "minSpawnGap (scroll_at dt i om) = minSpawnGap om"
  "created (scroll_at dt i om) = created om"
  by (simp_all add: scroll_at_def Let_def)

lemma scroll_loop_fields [simp]:
  "obstacleSpeed (scroll_loop dt n om) = obstacleSpeed om"
  "spawnInterval (scroll_loop dt n om) = spawnInterval om"
  "timeSinceLastSpawn (scroll_loop dt n om) = timeSinceLastSpawn om"
  "minSpawnGap (scroll_loop dt n om) = minSpawnGap om"
  "created (scroll_loop dt n om) = created om"
  by (induction n arbitrary: om; simp)+

lemma scroll_at_active:
  assumes "i < length (activeObstacles om)"
  shows "activeObstacles (scroll_at dt i om) =
     take i (activeObstacles om)
     @ filter (\<lambda>obs. \<not> off_screen obs) [moved dt om (activeObstacles om ! i)]
     @ drop (Suc i) (activeObstacles om)"
  using assms
  by (simp add: scroll_at_def Let_def moved_def off_screen_def upd_conv_take_nth_drop)

lemma scroll_at_pool:
  "pool (scroll_at dt i om) =
     pool om @ map element (filter off_screen [moved dt om (activeObstacles om ! i)])"
  by (simp add: scroll_at_def Let_def moved_def off_screen_def)

lemma moved_scroll_at [simp]: "moved dt (scroll_at dt' i om) = moved dt om"
  by (rule ext) (simp add: moved_def)

lemma scroll_loop_eq:
  "n \<le> length (activeObstacles om) \<Longrightarrow>
     activeObstacles (scroll_loop dt n om) =
       filter (\<lambda>obs. \<not> off_screen obs) (map (moved dt om) (take n (activeObstacles om)))
       @ drop n (activeObstacles om)
   \<and> pool (scroll_loop dt n om) =
       pool om @ rev (map element (filter off_screen (map (moved dt om) (take n (activeObstacles om)))))"
proof (induction n arbitrary: om)
  case 0
  then show ?case by simp
next
  case (Suc n)
  let ?xs = "activeObstacles om"
  let ?om1 = "scroll_at dt n om"
  from Suc.prems have lt: "n < length ?xs" by simp
  have act1: "activeObstacles ?om1 =
      take n ?xs @ filter (\<lambda>obs. \<not> off_screen obs) [moved dt om (?xs ! n)] @ drop (Suc n) ?xs"
    using lt by (rule scroll_at_active)
  have len: "n \<le> length (activeObstacles ?om1)"
    using lt by (simp add: act1)
  have tk: "take n (activeObstacles ?om1) = take n ?xs"
    using lt by (simp add: act1)
  have dr: "drop n (activeObstacles ?om1) =
      filter (\<lambda>obs. \<not> off_screen obs) [moved dt om (?xs ! n)] @ drop (Suc n) ?xs"
    using lt by (simp add: act1)
  have tS: "take (Suc n) ?xs = take n ?xs @ [?xs ! n]"
    using lt by (simp add: take_Suc_conv_app_nth)
  from Suc.IH [OF len] show ?case
    by (simp add: tk dr tS scroll_at_pool)
qed

lemma scroll_loop_count:
  "obstacle_count (scroll_loop dt (length (activeObstacles om)) om) = obstacle_count om"
proof -
  have "length (filter (\<lambda>obs. \<not> off_screen obs) xs) + length (filter off_screen xs) = length xs"
    for xs :: "obstacle list"
    by (induction xs) auto
  from this [of "map (moved dt om) (activeObstacles om)"] show ?thesis
    using scroll_loop_eq [of "length (activeObstacles om)" om dt]
    by (simp add: obstacle_count_def)
qed

lemma spawnObstacle_lists:
  "activeObstacles (spawnObstacle w om) =
     activeObstacles om @ [\<lparr> element = (if pool om = [] then created om else last (pool om)), position = w \<rparr>]"
  "pool (spawnObstacle w om) = butlast (pool om)"
  by (simp_all add: spawnObstacle_def Let_def)

lemma spawnObstacle_count:
  "obstacle_count (spawnObstacle w om) =
     (if pool om = [] then Suc (obstacle_count om) else obstacle_count om)"
  by (cases "pool om" rule: rev_cases) (simp_all add: obstacle_count_def spawnObstacle_lists)

lemma om_update_count:
  "obstacle_count om \<le> obstacle_count (om_update dt r w om)"
proof -
  let ?om1 = "scroll_loop dt (length (activeObstacles om)) om"
  have c: "obstacle_count (x\<lparr> timeSinceLastSpawn := v \<rparr>) = obstacle_count x" for x v
    by (simp add: obstacle_count_def)
  have s: "obstacle_count ?om1 = obstacle_count om"
    by (rule scroll_loop_count)
  have "obstacle_count om \<le> obstacle_count (spawnObstacle w (?om1\<lparr> timeSinceLastSpawn := v \<rparr>))" for v
    by (simp add: spawnObstacle_count c s)
  then show ?thesis
    by (simp add: om_update_def Let_def c s)
qed

lemma run_om_calls_count:
  "obstacle_count om \<le> obstacle_count (run_om_calls xs om)"
proof (induction xs arbitrary: om)
  case Nil
  then show ?case by simp
next
  case (Cons x xs)
  have "obstacle_count om \<le> obstacle_count (do_om_call x om)"
    by (cases x) (simp_all add: om_update_count spawnObstacle_count)
  also have "\<dots> \<le> obstacle_count (run_om_calls xs (do_om_call x om))"
    by (rule Cons.IH)
  finally show ?case by simp
qed


lemma spawnObstacle_fields [simp]:
  "obstacleSpeed (spawnObstacle w om) = obstacleSpeed om"
  "spawnInterval (spawnObstacle w om) = spawnInterval om"
  "minSpawnGap (spawnObstacle w om) = minSpawnGap om"
  by (simp_all add: spawnObstacle_def Let_def split: prod.splits)

lemma om_update_fields [simp]:
  "obstacleSpeed (om_update dt r w om) = obstacleSpeed om"
  "spawnInterval (om_update dt r w om) = spawnInterval om"
  "minSpawnGap (om_update dt r w om) = minSpawnGap om"
  by (simp_all add: om_update_def Let_def del: scroll_loop.simps)

lemma spawnDelay_ge: "minSpawnGap om \<le> spawnDelay r om"
  by (simp add: spawnDelay_def)

lemma om_update_no_spawn:
  assumes "timeSinceLastSpawn om + dt * 1000 \<le> minSpawnGap om"
  shows "om_update dt r w om =
     (scroll_loop dt (length (activeObstacles om)) om)
       \<lparr> timeSinceLastSpawn := timeSinceLastSpawn om + dt * 1000 \<rparr>"
proof -
  let ?om2 = "(scroll_loop dt (length (activeObstacles om)) om)
       \<lparr> timeSinceLastSpawn := timeSinceLastSpawn om + dt * 1000 \<rparr>"
  have "minSpawnGap om \<le> spawnDelay r ?om2"
    using spawnDelay_ge [of ?om2 r] by simp
  with assms have "\<not> timeSinceLastSpawn ?om2 > spawnDelay r ?om2"
    by simp
  then show ?thesis
    by (simp add: om_update_def Let_def del: scroll_loop.simps)
qed

text \<open>
  C8. Whatever \<open>Math.random()\<close> draws and whatever the spawn interval is, the spawn delay
  that \<open>update\<close> computes is at least the minimum gap; so an \<open>update\<close> whose accumulated
  time does not exceed the minimum gap spawns nothing: it only scrolls the obstacles
  and adds to the accumulated time.
\<close>

theorem C8_spawn_delay:
  "minSpawnGap om \<le> spawnDelay r om
   \<and> (timeSinceLastSpawn om + deltaTime * 1000 \<le> minSpawnGap om \<longrightarrow>
        om_update deltaTime r w om =
          (scroll_loop deltaTime (length (activeObstacles om)) om)
            \<lparr> timeSinceLastSpawn := timeSinceLastSpawn om + deltaTime * 1000 \<rparr>)"
  using om_update_no_spawn [of om deltaTime r w] by (simp add: spawnDelay_ge)

theorem C8_spawn_delay_witness:
  "minSpawnGap (new_ObstacleManager 5 2000) \<le> spawnDelay (1 / 2) (new_ObstacleManager 5 2000)
   \<and> spawnDelay (1 / 2) (new_ObstacleManager 5 2000) = 1500
   \<and> spawnDelay (3 / 4) (new_ObstacleManager 5 2000) = 2000
   \<and> om_update 1 (1 / 2) 800 (new_ObstacleManager 5 2000) =
        (new_ObstacleManager 5 2000)\<lparr> timeSinceLastSpawn := 1000 \<rparr>"
proof -
  have h: "timeSinceLastSpawn (new_ObstacleManager 5 2000) + 1 * 1000
      \<le> minSpawnGap (new_ObstacleManager 5 2000)"
    by (simp add: new_ObstacleManager_def)
  from C8_spawn_delay [of "new_ObstacleManager 5 2000" "1 / 2" 1 800] h
  have "om_update 1 (1 / 2) 800 (new_ObstacleManager 5 2000) =
      (scroll_loop 1 (length (activeObstacles (new_ObstacleManager 5 2000)))
         (new_ObstacleManager 5 2000))
        \<lparr> timeSinceLastSpawn := timeSinceLastSpawn (new_ObstacleManager 5 2000) + 1 * 1000 \<rparr>"
    and "minSpawnGap (new_ObstacleManager 5 2000) \<le> spawnDelay (1 / 2) (new_ObstacleManager 5 2000)"
    by blast+
  then show ?thesis
    by (simp add: new_ObstacleManager_def spawnDelay_def)
qed

text \<open>
  C9. Over any sequence of \<open>update\<close> and \<open>spawnObstacle\<close> calls the number of active plus
  pooled obstacles never decreases. The loop of \<open>update\<close> keeps the obstacles that stay on
  screen in the active list and moves the element of each one that left it to the pool,
  one for one; \<open>spawnObstacle\<close> appends one obstacle to the active list, whose element is
  the one popped from the pool, or a new one when the pool is empty.
\<close>

theorem C9_obstacle_count:
  "obstacle_count om \<le> obstacle_count (run_om_calls xs om)
   \<and> activeObstacles (scroll_loop deltaTime (length (activeObstacles om)) om) =
       filter (\<lambda>obs. \<not> off_screen obs) (map (moved deltaTime om) (activeObstacles om))
   \<and> pool (scroll_loop deltaTime (length (activeObstacles om)) om) =
       pool om @ rev (map element
         (filter off_screen (map (moved deltaTime om) (activeObstacles om))))
   \<and> activeObstacles (spawnObstacle w om) =
       activeObstacles om
       @ [\<lparr> element = (if pool om = [] then created om else last (pool om)), position = w \<rparr>]
   \<and> pool (spawnObstacle w om) = butlast (pool om)
   \<and> obstacle_count (spawnObstacle w om) =
       (if pool om = [] then Suc (obstacle_count om) else obstacle_count om)"
  using scroll_loop_eq [of "length (activeObstacles om)" om deltaTime]
  by (simp add: run_om_calls_count spawnObstacle_lists spawnObstacle_count del: scroll_loop.simps)

section \<open>Game loop\<close>

lemma gameOver_state [simp]: "state (fst (gameOver P s g)) = GAMEOVER"
  by (simp add: gameOver_def Let_def split: sum.splits)

lemma gameOver_fields [simp]:
  "score (fst (gameOver P s g)) = score g"
  "highScore (fst (gameOver P s g)) = highScore g"
  "level (fst (gameOver P s g)) = level g"
  "game_obstacleSpeed (fst (gameOver P s g)) = game_obstacleSpeed g"
  "game_spawnInterval (fst (gameOver P s g)) = game_spawnInterval g"
  "lastFrameTime (fst (gameOver P s g)) = lastFrameTime g"
  "character (fst (gameOver P s g)) = character g"
  "obstacleManager (fst (gameOver P s g)) = obstacleManager g"
  by (simp_all add: gameOver_def Let_def split: sum.splits)

lemma gameOver_effects:
  "count_list (fst (snd (gameOver P s g))) (Dispatch ev) = 0"
  "RequestAnimationFrame \<notin> set (fst (snd (gameOver P s g)))"
  by (simp_all add: gameOver_def Let_def split: sum.splits)

lemma update_effects:
  "count_list (snd (update s c)) (Dispatch ''playerCollision'') = 0"
  "RequestAnimationFrame \<notin> set (snd (update s c))"
  by (simp_all add: update_def Let_def)

lemma advance_fields [simp]:
  "state (fst (advance s f g)) = state g"
  "score (fst (advance s f g)) = score g"
  "highScore (fst (advance s f g)) = highScore g"
  "level (fst (advance s f g)) = level g"
  "game_obstacleSpeed (fst (advance s f g)) = game_obstacleSpeed g"
  "game_spawnInterval (fst (advance s f g)) = game_spawnInterval g"
  "localStorage (fst (advance s f g)) = localStorage g"
  "lastFrameTime (fst (advance s f g)) = currentTime f"
  "character (fst (advance s f g)) = fst (update s (character g))"
  "fst (snd (advance s f g)) = (currentTime f - lastFrameTime g) / 1000"
  "snd (snd (advance s f g)) = snd (update s (character g))"
  by (simp_all add: advance_def Let_def split: prod.splits)

lemma advance_manager:
  "obstacleManager (fst (advance s f g)) =
     om_update ((currentTime f - lastFrameTime g) / 1000) (random f) (offsetWidth f)
       (obstacleManager g)"
  by (simp add: advance_def Let_def split: prod.splits)

lemma progress_fields [simp]:
  "state (progress P dt g) = state g"
  "score (progress P dt g) = score g + dt * SCORE_RATE"
  "game_spawnInterval (progress P dt g) =
     max MIN_SPAWN_INTERVAL (INITIAL_SPAWN_INTERVAL - (score g + dt * SCORE_RATE) / 5)"
  "spawnInterval (obstacleManager (progress P dt g)) =
     max MIN_SPAWN_INTERVAL (INITIAL_SPAWN_INTERVAL - (score g + dt * SCORE_RATE) / 5)"
  "obstacleSpeed (obstacleManager (progress P dt g)) = obstacleSpeed (obstacleManager g)"
  "character (progress P dt g) = character g"
  "lastFrameTime (progress P dt g) = lastFrameTime g"
  by (simp_all add: progress_def Let_def levelUp_def)

lemma gameLoop_hit:
  assumes "state g = RUNNING" and "first_hit f (fst (advance s f g)) = Some obs"
  shows "gameLoop P s f g =
     (fst (gameOver P s (fst (advance s f g))),
      snd (update s (character g)) @ [Dispatch ''playerCollision'']
        @ fst (snd (gameOver P s (fst (advance s f g)))),
      snd (snd (gameOver P s (fst (advance s f g)))))"
  using assms by (simp add: gameLoop_def case_prod_beta Let_def)

lemma gameLoop_miss:
  assumes "state g = RUNNING" and "first_hit f (fst (advance s f g)) = None"
  shows "gameLoop P s f g =
     (progress P ((currentTime f - lastFrameTime g) / 1000) (fst (advance s f g)),
      snd (update s (character g)) @ [RequestAnimationFrame], None)"
  using assms by (simp add: gameLoop_def case_prod_beta Let_def)

lemma gameLoop_idle: "state g \<noteq> RUNNING \<Longrightarrow> gameLoop P s f g = (g, [], None)"
  by (simp add: gameLoop_def)

lemma first_hit_iff:
  "(first_hit f g \<noteq> None) =
     (\<exists>obs \<in> set (activeObstacles (obstacleManager g)).
        overlaps (charRect f) (obsRect f (element obs)))"
  by (auto simp add: first_hit_def find_None_iff)

lemma gameLoop_manager_speed:
  "obstacleSpeed (obstacleManager (fst (gameLoop P s f g))) = obstacleSpeed (obstacleManager g)"
proof (cases "state g = RUNNING")
  case False
  then show ?thesis by (simp add: gameLoop_idle)
next
  case True
  show ?thesis
  proof (cases "first_hit f (fst (advance s f g))")
    case None
    with True show ?thesis by (simp add: gameLoop_miss advance_manager)
  next
    case (Some obs)
    with True show ?thesis by (simp add: gameLoop_hit advance_manager)
  qed
qed


lemma frame_at_fields [simp]:
  "currentTime (frame_at t c ob) = t"
  "random (frame_at t c ob) = 1 / 2"
  "offsetWidth (frame_at t c ob) = 800"
  "charRect (frame_at t c ob) = c"
  "obsRect (frame_at t c ob) e = ob"
  by (simp_all add: frame_at_def)

lemma started_eq:
  "started =
     \<lparr> state = RUNNING, score = 0, highScore = Num 0, level = 1,
       game_obstacleSpeed = 5, game_spawnInterval = 2000, lastFrameTime = 0,
       character = new_Character 10 True,
       obstacleManager = new_ObstacleManager 5 2000,
       localStorage = Map.empty \<rparr>"
  by (simp add: started_def startGame_def new_Game_def load_highScore_def CONFIG_defs)

text \<open>
  C3, as the claim states it, fails: the test compares the bottom of its first
  rectangle with the top of its second only. A character in the air above an obstacle
  does not hit it, and the same two rectangles in the other order pass the test.
\<close>

theorem C3_overlap_not_symmetric:
  "\<not> overlaps (box 50 90 260 300) (box 60 90 360 390)
   \<and> overlaps (box 60 90 360 390) (box 50 90 260 300)"
  by (simp add: overlaps_def box_def)

text \<open>
  C3, amended. The horizontal part of the test is symmetric and the vertical part is
  one-sided, so the test gives the same verdict with the rectangles swapped whenever
  the vertical comparison agrees both ways. A frame of a running game finds a hit
  exactly when some active obstacle passes the test against the character; it then
  triggers the game over once: one collision event, one call of \<open>gameOver\<close>, the state
  \<open>GAMEOVER\<close> and no request for a further frame. A frame without a hit dispatches no
  collision event and leaves the game running.
\<close>

theorem C3_collision:
  "((rect_bottom a > rect_top b) = (rect_bottom b > rect_top a) \<longrightarrow>
       overlaps a b = overlaps b a)
   \<and> (first_hit f g \<noteq> None) =
       (\<exists>obs \<in> set (activeObstacles (obstacleManager g)).
          overlaps (charRect f) (obsRect f (element obs)))
   \<and> (state g = RUNNING \<and> first_hit f (fst (advance s f g)) \<noteq> None \<longrightarrow>
        gameLoop P s f g =
          (fst (gameOver P s (fst (advance s f g))),
           snd (update s (character g)) @ [Dispatch ''playerCollision'']
             @ fst (snd (gameOver P s (fst (advance s f g)))),
           snd (snd (gameOver P s (fst (advance s f g)))))
        \<and> state (fst (gameLoop P s f g)) = GAMEOVER
        \<and> count_list (fst (snd (gameLoop P s f g))) (Dispatch ''playerCollision'') = 1
        \<and> RequestAnimationFrame \<notin> set (fst (snd (gameLoop P s f g))))
   \<and> (state g = RUNNING \<and> first_hit f (fst (advance s f g)) = None \<longrightarrow>
        state (fst (gameLoop P s f g)) = RUNNING
        \<and> count_list (fst (snd (gameLoop P s f g))) (Dispatch ''playerCollision'') = 0)"
proof -
  have sym: "(rect_bottom a > rect_top b) = (rect_bottom b > rect_top a) \<longrightarrow>
       overlaps a b = overlaps b a"
    by (auto simp add: overlaps_def)
  have hit: "gameLoop P s f g =
          (fst (gameOver P s (fst (advance s f g))),
           snd (update s (character g)) @ [Dispatch ''playerCollision'']
             @ fst (snd (gameOver P s (fst (advance s f g)))),
           snd (snd (gameOver P s (fst (advance s f g)))))
        \<and> state (fst (gameLoop P s f g)) = GAMEOVER
        \<and> count_list (fst (snd (gameLoop P s f g))) (Dispatch ''playerCollision'') = 1
        \<and> RequestAnimationFrame \<notin> set (fst (snd (gameLoop P s f g)))"
    if "state g = RUNNING" and "first_hit f (fst (advance s f g)) \<noteq> None"
  proof -
    from that(2) obtain obs where "first_hit f (fst (advance s f g)) = Some obs"
      by auto
    with that(1) show ?thesis
      by (simp add: gameLoop_hit gameOver_effects update_effects)
  qed
  have miss: "state (fst (gameLoop P s f g)) = RUNNING
        \<and> count_list (fst (snd (gameLoop P s f g))) (Dispatch ''playerCollision'') = 0"
    if "state g = RUNNING" and "first_hit f (fst (advance s f g)) = None"
    using that by (simp add: gameLoop_miss update_effects)
  from sym hit miss first_hit_iff [of f g] show ?thesis
    by blast
qed


theorem C3_collision_witness:
  "overlaps (box 50 90 350 390) (box 60 90 360 390)
   \<and> overlaps (box 60 90 360 390) (box 50 90 350 390)
   \<and> state (fst (gameLoop browser defaults
        (frame_at 2000 (box 50 90 350 390) (box 60 90 360 390)) started)) = GAMEOVER
   \<and> fst (snd (gameLoop browser defaults
        (frame_at 2000 (box 50 90 350 390) (box 60 90 360 390)) started))
      = [Dispatch ''playerCollision'', Vibrate 100, BgMusicPause, StopDeathSound]
   \<and> state (fst (gameLoop browser defaults
        (frame_at 16 (box 50 90 350 390) (box 60 90 360 390)) started)) = RUNNING"
proof -
  let ?a = "box 50 90 350 390" and ?b = "box 60 90 360 390"
  let ?f = "frame_at 2000 ?a ?b" and ?f' = "frame_at 16 ?a ?b"
  have v: "(rect_bottom ?a > rect_top ?b) = (rect_bottom ?b > rect_top ?a)"
    by (simp add: box_def)
  have r: "state started = RUNNING"
    by code_simp
  have h: "first_hit ?f (fst (advance defaults ?f started)) \<noteq> None"
    by code_simp
  have m: "first_hit ?f' (fst (advance defaults ?f' started)) = None"
    by code_simp
  have o: "overlaps ?a ?b"
    by (simp add: overlaps_def box_def)
  have e: "fst (snd (gameLoop browser defaults ?f started))
      = [Dispatch ''playerCollision'', Vibrate 100, BgMusicPause, StopDeathSound]"
    by code_simp
  from C3_collision [of ?a ?b ?f started defaults browser] v r h
  have "overlaps ?a ?b = overlaps ?b ?a"
    and "state (fst (gameLoop browser defaults ?f started)) = GAMEOVER"
    by blast+
  moreover from C3_collision [of ?a ?b ?f' started defaults browser] r m
  have "state (fst (gameLoop browser defaults ?f' started)) = RUNNING"
    by blast
  ultimately show ?thesis
    using o e by simp
qed

lemma progress_level:
  "level (progress P dt g) =
     (if js_rem \<lfloor>score g + dt * SCORE_RATE\<rfloor> 1000 = 0 \<and> \<lfloor>score g + dt * SCORE_RATE\<rfloor> \<noteq> 0
      then level g + 1 else level g)"
  "game_obstacleSpeed (progress P dt g) =
     (if js_rem \<lfloor>score g + dt * SCORE_RATE\<rfloor> 1000 = 0 \<and> \<lfloor>score g + dt * SCORE_RATE\<rfloor> \<noteq> 0
      then game_obstacleSpeed g + 1 else game_obstacleSpeed g)"
  by (simp_all add: progress_def Let_def levelUp_def)

lemma progress_manager:
  "obstacleManager (progress P dt g) =
     (obstacleManager g)\<lparr> spawnInterval :=
        max MIN_SPAWN_INTERVAL (INITIAL_SPAWN_INTERVAL - (score g + dt * SCORE_RATE) / 5) \<rparr>"
  by (simp add: progress_def Let_def levelUp_def)

text \<open>A frame of a running game with no obstacle on screen and none due.\<close>

lemma quiet_frame:
  assumes "state g = RUNNING"
    and "activeObstacles (obstacleManager g) = []"
    and "timeSinceLastSpawn (obstacleManager g) + (currentTime f - lastFrameTime g)
           \<le> minSpawnGap (obstacleManager g)"
  shows "fst (gameLoop P s f g) =
           progress P ((currentTime f - lastFrameTime g) / 1000) (fst (advance s f g))"
    and "obstacleManager (fst (advance s f g)) =
           (obstacleManager g)\<lparr> timeSinceLastSpawn :=
              timeSinceLastSpawn (obstacleManager g) + (currentTime f - lastFrameTime g) \<rparr>"
proof -
  let ?om = "obstacleManager g"
  define d where "d = currentTime f - lastFrameTime g"
  have e: "d / 1000 * 1000 = d"
    by simp
  have "timeSinceLastSpawn ?om + d \<le> minSpawnGap ?om"
    using assms(3) by (simp only: d_def)
  then have "timeSinceLastSpawn ?om + d / 1000 * 1000 \<le> minSpawnGap ?om"
    by (simp only: e)
  then have "om_update (d / 1000) (random f) (offsetWidth f) ?om =
      (scroll_loop (d / 1000) (length (activeObstacles ?om)) ?om)
         \<lparr> timeSinceLastSpawn := timeSinceLastSpawn ?om + d / 1000 * 1000 \<rparr>"
    by (rule om_update_no_spawn)
  then have "om_update (d / 1000) (random f) (offsetWidth f) ?om =
      ?om\<lparr> timeSinceLastSpawn := timeSinceLastSpawn ?om + d \<rparr>"
    unfolding e by (simp add: assms(2))
  then show om: "obstacleManager (fst (advance s f g)) =
           (obstacleManager g)\<lparr> timeSinceLastSpawn :=
              timeSinceLastSpawn (obstacleManager g) + (currentTime f - lastFrameTime g) \<rparr>"
    by (simp add: d_def advance_manager)
  have "first_hit f (fst (advance s f g)) = None"
    using assms(2) by (simp add: first_hit_def om)
  with assms(1) show "fst (gameLoop P s f g) =
           progress P ((currentTime f - lastFrameTime g) / 1000) (fst (advance s f g))"
    by (simp add: gameLoop_miss)
qed

lemma floor_numeral_div [simp]:
  "\<lfloor>numeral a / numeral b :: rat\<rfloor> = numeral a div numeral b"
  using floor_divide_of_int_eq [of "numeral a" "numeral b", where ?'a = rat] by simp

lemma js_rem_1000 [simp]:
  "js_rem 1000 1000 = 0" "js_rem 1005 1000 = 5"
  by (simp_all add: js_rem_def)

text \<open>
  C4. The claim is what the game means to do and the code does not do it. \<open>levelUp\<close>
  adds \<open>1\<close> to the \<open>obstacleSpeed\<close> field of the game, but the obstacles are advanced with
  the \<open>obstacleSpeed\<close> field of the obstacle manager, which got the initial speed in the
  constructor and is never written again: no frame changes it (the spawn interval, next
  to it, is copied to the manager in every frame). And the test of \<open>gameLoop\<close> is on the
  floor of the score being a multiple of \<open>1000\<close>, not on crossing one: from the score
  \<open>995\<close>, a frame of half a second reaches \<open>1000\<close> and levels up, the next frame, \<open>50\<close>
  milliseconds later, levels up again at \<open>1000.5\<close>, and a frame of one second goes from
  \<open>995\<close> to \<open>1005\<close> without any level-up.
\<close>

theorem C4_level_up_defect:
  "obstacleSpeed (obstacleManager (fst (gameLoop P s f g))) = obstacleSpeed (obstacleManager g)
   \<and> level (fst (gameLoop P defaults (frame_at 500 (box 0 0 0 0) (box 0 0 0 0))
        (started\<lparr> score := 995 \<rparr>))) = 2
   \<and> game_obstacleSpeed (fst (gameLoop P defaults (frame_at 500 (box 0 0 0 0) (box 0 0 0 0))
        (started\<lparr> score := 995 \<rparr>))) = 6
   \<and> obstacleSpeed (obstacleManager (fst (gameLoop P defaults
        (frame_at 500 (box 0 0 0 0) (box 0 0 0 0)) (started\<lparr> score := 995 \<rparr>)))) = 5
   \<and> score (gameLoops P defaults
        [frame_at 500 (box 0 0 0 0) (box 0 0 0 0), frame_at 550 (box 0 0 0 0) (box 0 0 0 0)]
        (started\<lparr> score := 995 \<rparr>)) = 1000 + 1 / 2
   \<and> level (gameLoops P defaults
        [frame_at 500 (box 0 0 0 0) (box 0 0 0 0), frame_at 550 (box 0 0 0 0) (box 0 0 0 0)]
        (started\<lparr> score := 995 \<rparr>)) = 3
   \<and> score (fst (gameLoop P defaults (frame_at 1000 (box 0 0 0 0) (box 0 0 0 0))
        (started\<lparr> score := 995 \<rparr>))) = 1005
   \<and> level (fst (gameLoop P defaults (frame_at 1000 (box 0 0 0 0) (box 0 0 0 0))
        (started\<lparr> score := 995 \<rparr>))) = 1"
proof -
  let ?z = "box 0 0 0 0"
  let ?g = "started\<lparr> score := 995 \<rparr>"
  let ?f1 = "frame_at 500 ?z ?z" and ?f2 = "frame_at 550 ?z ?z" and ?f3 = "frame_at 1000 ?z ?z"
  let ?g1 = "fst (gameLoop P defaults ?f1 ?g)"
  have quiet: "state ?g = RUNNING" "activeObstacles (obstacleManager ?g) = []"
    "timeSinceLastSpawn (obstacleManager ?g) + (currentTime (frame_at t ?z ?z) - lastFrameTime ?g)
       = t" "minSpawnGap (obstacleManager ?g) = 1500" for t
    by (simp_all add: started_eq new_ObstacleManager_def)
  have g1: "?g1 = progress P ((currentTime ?f1 - lastFrameTime ?g) / 1000)
       (fst (advance defaults ?f1 ?g))"
    by (rule quiet_frame(1)) (simp_all add: started_eq new_ObstacleManager_def)
  have om1: "obstacleManager (fst (advance defaults ?f1 ?g))
        = (obstacleManager ?g)\<lparr> timeSinceLastSpawn :=
              timeSinceLastSpawn (obstacleManager ?g) + (currentTime ?f1 - lastFrameTime ?g) \<rparr>"
    by (rule quiet_frame(2)) (simp_all add: started_eq new_ObstacleManager_def)
  have l1: "level ?g1 = 2" "game_obstacleSpeed ?g1 = 6" "score ?g1 = 1000"
    "state ?g1 = RUNNING" "lastFrameTime ?g1 = 500"
    unfolding g1 by (simp_all add: progress_level started_eq SCORE_RATE_def)
  have m1: "obstacleManager ?g1 = (new_ObstacleManager 5 2000)
      \<lparr> timeSinceLastSpawn := 500, spawnInterval := 1800 \<rparr>"
    unfolding g1 progress_manager om1 by (simp add: started_eq new_ObstacleManager_def CONFIG_defs)
  let ?g2 = "fst (gameLoop P defaults ?f2 ?g1)"
  have g2: "?g2 = progress P ((currentTime ?f2 - lastFrameTime ?g1) / 1000)
       (fst (advance defaults ?f2 ?g1))"
  proof (rule quiet_frame(1))
    show "state ?g1 = RUNNING"
      by (rule l1)
    show "activeObstacles (obstacleManager ?g1) = []"
      unfolding m1 by (simp add: new_ObstacleManager_def)
    show "timeSinceLastSpawn (obstacleManager ?g1) + (currentTime ?f2 - lastFrameTime ?g1)
        \<le> minSpawnGap (obstacleManager ?g1)"
      unfolding m1 l1 by (simp add: new_ObstacleManager_def)
  qed
  have l2: "level ?g2 = 3" "score ?g2 = 1000 + 1 / 2"
    unfolding g2 by (simp_all add: progress_level l1 SCORE_RATE_def)
  let ?g3 = "fst (gameLoop P defaults ?f3 ?g)"
  have g3: "?g3 = progress P ((currentTime ?f3 - lastFrameTime ?g) / 1000)
       (fst (advance defaults ?f3 ?g))"
    by (rule quiet_frame(1)) (simp_all add: started_eq new_ObstacleManager_def)
  have l3: "level ?g3 = 1" "score ?g3 = 1005"
    unfolding g3 by (simp_all add: progress_level started_eq SCORE_RATE_def)
  have s0: "obstacleSpeed (obstacleManager started) = 5"
    by (simp add: started_eq new_ObstacleManager_def)
  show ?thesis
    by (simp add: gameLoop_manager_speed l1 l2 l3 s0)
qed

section \<open>Difficulty and pausing\<close>

lemma gameLoop_keeps_running:
  assumes "state g = RUNNING" and "state (fst (gameLoop P s f g)) = RUNNING"
  shows "fst (gameLoop P s f g) =
     progress P ((currentTime f - lastFrameTime g) / 1000) (fst (advance s f g))"
proof (cases "first_hit f (fst (advance s f g))")
  case None
  with assms(1) show ?thesis by (simp add: gameLoop_miss)
next
  case (Some obs)
  with assms show ?thesis by (simp add: gameLoop_hit)
qed

lemma interval_ok_gameLoop:
  assumes "interval_ok g"
  shows "interval_ok (fst (gameLoop P s f g))"
proof (cases "state g = RUNNING")
  case False
  with assms show ?thesis by (simp add: gameLoop_idle)
next
  case True
  show ?thesis
  proof (cases "first_hit f (fst (advance s f g))")
    case None
    with True show ?thesis
      by (simp add: gameLoop_miss interval_ok_def CONFIG_defs)
  next
    case (Some obs)
    with True assms show ?thesis
      by (simp add: gameLoop_hit interval_ok_def advance_manager)
  qed
qed

lemma started_tick:
  assumes "t \<le> 1500"
  shows "state (fst (gameLoop P defaults (frame_at t c ob) (started\<lparr> score := x \<rparr>))) = RUNNING"
    and "score (fst (gameLoop P defaults (frame_at t c ob) (started\<lparr> score := x \<rparr>)))
          = x + t / 100"
proof -
  let ?g = "started\<lparr> score := x \<rparr>" and ?f = "frame_at t c ob"
  have "fst (gameLoop P defaults ?f ?g) =
      progress P ((currentTime ?f - lastFrameTime ?g) / 1000) (fst (advance defaults ?f ?g))"
    using assms by (intro quiet_frame(1)) (simp_all add: started_eq new_ObstacleManager_def)
  then show "state (fst (gameLoop P defaults ?f ?g)) = RUNNING"
    and "score (fst (gameLoop P defaults ?f ?g)) = x + t / 100"
    by (simp_all add: started_eq SCORE_RATE_def)
qed

text \<open>
  C7. After a frame of a running game that leaves it running, the spawn interval of
  the game and of the obstacle manager is \<open>max(800, 2000 - score / 5)\<close> for the score
  after the frame: \<open>1600\<close> at the score \<open>2000\<close> and the floor \<open>800\<close> at \<open>6000\<close>. A frame that
  ends the game changes neither the score nor the interval, so the equation holds of a
  new game and is kept by every frame.
\<close>

theorem C7_spawn_interval:
  "(state g = RUNNING \<and> state (fst (gameLoop P s f g)) = RUNNING \<longrightarrow>
        game_spawnInterval (fst (gameLoop P s f g))
          = max 800 (2000 - score (fst (gameLoop P s f g)) / 5)
        \<and> spawnInterval (obstacleManager (fst (gameLoop P s f g)))
          = max 800 (2000 - score (fst (gameLoop P s f g)) / 5)
        \<and> (score (fst (gameLoop P s f g)) = 2000 \<longrightarrow>
             game_spawnInterval (fst (gameLoop P s f g)) = 1600)
        \<and> (score (fst (gameLoop P s f g)) = 6000 \<longrightarrow>
             game_spawnInterval (fst (gameLoop P s f g)) = 800))
   \<and> (interval_ok g \<longrightarrow> interval_ok (fst (gameLoop P s f g)))
   \<and> interval_ok (fst (new_Game s now st))"
proof -
  have "game_spawnInterval (fst (gameLoop P s f g))
          = max 800 (2000 - score (fst (gameLoop P s f g)) / 5)
        \<and> spawnInterval (obstacleManager (fst (gameLoop P s f g)))
          = max 800 (2000 - score (fst (gameLoop P s f g)) / 5)"
    if "state g = RUNNING" and "state (fst (gameLoop P s f g)) = RUNNING"
    unfolding gameLoop_keeps_running [OF that] by (simp add: CONFIG_defs)
  moreover have "interval_ok (fst (new_Game s now st))"
    by (simp add: interval_ok_def new_Game_def new_ObstacleManager_def CONFIG_defs)
  ultimately show ?thesis
    using interval_ok_gameLoop [of g P s f]
    by auto
qed

theorem C7_spawn_interval_witness:
  "score (fst (gameLoop browser defaults (frame_at 500 (box 0 0 0 0) (box 0 0 0 0))
        (started\<lparr> score := 1995 \<rparr>))) = 2000
   \<and> game_spawnInterval (fst (gameLoop browser defaults (frame_at 500 (box 0 0 0 0) (box 0 0 0 0))
        (started\<lparr> score := 1995 \<rparr>))) = 1600
   \<and> spawnInterval (obstacleManager (fst (gameLoop browser defaults
        (frame_at 500 (box 0 0 0 0) (box 0 0 0 0)) (started\<lparr> score := 1995 \<rparr>)))) = 1600
   \<and> score (fst (gameLoop browser defaults (frame_at 500 (box 0 0 0 0) (box 0 0 0 0))
        (started\<lparr> score := 5995 \<rparr>))) = 6000
   \<and> game_spawnInterval (fst (gameLoop browser defaults (frame_at 500 (box 0 0 0 0) (box 0 0 0 0))
        (started\<lparr> score := 5995 \<rparr>))) = 800
   \<and> interval_ok started
   \<and> interval_ok (fst (gameLoop browser defaults (frame_at 500 (box 0 0 0 0) (box 0 0 0 0))
        started))"
proof -
  let ?f = "frame_at 500 (box 0 0 0 0) (box 0 0 0 0)"
  let ?a = "fst (gameLoop browser defaults ?f (started\<lparr> score := 1995 \<rparr>))"
  let ?b = "fst (gameLoop browser defaults ?f (started\<lparr> score := 5995 \<rparr>))"
  have ra: "state (started\<lparr> score := 1995 \<rparr>) = RUNNING" "state ?a = RUNNING" "score ?a = 2000"
    by (simp_all add: started_tick) (simp add: started_eq)
  have rb: "state (started\<lparr> score := 5995 \<rparr>) = RUNNING" "state ?b = RUNNING" "score ?b = 6000"
    by (simp_all add: started_tick) (simp add: started_eq)
  have ok: "interval_ok started"
    by (simp add: interval_ok_def started_eq new_ObstacleManager_def)
  from C7_spawn_interval [of "started\<lparr> score := 1995 \<rparr>" browser defaults ?f] ra
  have a: "game_spawnInterval ?a = 1600" "spawnInterval (obstacleManager ?a) = 1600"
    by simp_all
  from C7_spawn_interval [of "started\<lparr> score := 5995 \<rparr>" browser defaults ?f] rb
  have b: "game_spawnInterval ?b = 800"
    by simp
  from C7_spawn_interval [of started browser defaults ?f] ok
  have c: "interval_ok (fst (gameLoop browser defaults ?f started))"
    by simp
  from ra rb ok a b c show ?thesis
    by simp
qed

lemma gameLoops_idle: "state g \<noteq> RUNNING \<Longrightarrow> gameLoops P s fs g = g"
  by (induction fs) (simp_all add: gameLoop_idle)

text \<open>
  C10. \<open>pause()\<close>, any frames that arrive while the game is paused, and \<open>resume()\<close> leave
  the game as it was but for the state flag and the time of the last frame: the score,
  the level, both speeds and intervals, the high score, the character, the obstacle
  manager and the store are the same. \<open>gameLoop\<close> returns at once, with no effect, in
  every state but \<open>RUNNING\<close>, and the jump keys do nothing on a paused game.
\<close>

theorem C10_pause_resume:
  "fst (resume s now (gameLoops P s fs (fst (pause g)))) =
     g\<lparr> state := RUNNING, lastFrameTime := now \<rparr>
   \<and> gameLoop P s f (fst (pause g)) = (fst (pause g), [], None)
   \<and> gameLoop P s f (g\<lparr> state := HOME \<rparr>) = (g\<lparr> state := HOME \<rparr>, [], None)
   \<and> gameLoop P s f (g\<lparr> state := GAMEOVER \<rparr>) = (g\<lparr> state := GAMEOVER \<rparr>, [], None)
   \<and> keydown s now '' '' (fst (pause g)) = (fst (pause g), [])
   \<and> keydown s now ''ArrowUp'' (fst (pause g)) = (fst (pause g), [])
   \<and> fst (keydown s now ''p'' (fst (keydown s now' ''p'' (g\<lparr> state := RUNNING \<rparr>)))) =
       g\<lparr> state := RUNNING, lastFrameTime := now \<rparr>"
  by (simp add: gameLoops_idle gameLoop_idle pause_def resume_def keydown_def)

section \<open>Persisted state and leaderboard\<close>

lemma insert_desc_mset: "mset (insert_desc x ys) = add_mset x (mset ys)"
  by (induction ys) simp_all

lemma insert_desc_set: "set (insert_desc x ys) = insert x (set ys)"
  by (induction ys) auto

lemma insert_desc_sorted:
  "sorted_wrt (\<ge>) ys \<Longrightarrow> sorted_wrt (\<ge>) (insert_desc x ys)"
  by (induction ys) (auto simp add: insert_desc_set)

lemma sort_numbers_mset: "mset (sort_numbers xs) = mset xs"
  by (induction xs) (simp_all add: insert_desc_mset)

lemma sort_numbers_sorted: "sorted_wrt (\<ge>) (sort_numbers xs)"
  by (induction xs) (simp_all add: insert_desc_sorted)

lemma numbers_of_JNum: "numbers_of (map JNum ns) = Some ns"
  by (induction ns) simp_all

lemma load_leaderboard_missing:
  assumes "st ''leaderboard'' = None" and "JSON_parse P ''null'' = Some JNull"
  shows "load_leaderboard P st = Inr []"
  using assms by (simp add: load_leaderboard_def)

lemma load_leaderboard_rejected:
  assumes "st ''leaderboard'' = Some t" and "JSON_parse P t = None"
  shows "load_leaderboard P st = Inl SyntaxError"
  using assms by (simp add: load_leaderboard_def)

lemma updateLeaderboard_numbers:
  assumes "load_leaderboard P st = Inr (map JNum ns)"
  shows "updateLeaderboard P sc st =
     Inr (st(''leaderboard'' \<mapsto>
       JSON_stringify P (JArr (map JNum (take 5 (sort_numbers (ns @ [sc])))))))"
proof -
  have "numbers_of (map JNum ns @ [JNum sc]) = Some (ns @ [sc])"
    using numbers_of_JNum [of "ns @ [sc]"] by simp
  then show ?thesis
    using assms by (simp add: updateLeaderboard_def sort_desc_def take_map)
qed

lemma updateLeaderboard_stored:
  assumes "updateLeaderboard P sc st = Inr st'"
  shows "\<exists>vs. st' ''leaderboard'' = Some (JSON_stringify P (JArr vs)) \<and> length vs \<le> 5"
  using assms
  by (auto simp add: updateLeaderboard_def split: sum.splits)

text \<open>
  C5, as the claim states it, fails on corrupt state. A high score text that is not a
  number is kept as the high score (and no score is ever greater than it), and a
  leaderboard text that is not JSON makes \<open>gameOver\<close> throw.
\<close>

theorem C5_corrupt_state_not_defaulted:
  "highScore (fst (new_Game defaults 0 [''highScore'' \<mapsto> ''abc''])) = Str ''abc''
   \<and> \<not> greater_js browser 1000000 (Str ''abc'')
   \<and> updateLeaderboard browser 7 [''leaderboard'' \<mapsto> ''{''] = Inl SyntaxError
   \<and> snd (snd (gameOver browser defaults
        (fst (new_Game defaults 0 [''leaderboard'' \<mapsto> ''{''])))) = Some SyntaxError"
proof -
  have "JSON_parse browser ''{'' = None"
    by code_simp
  then have "updateLeaderboard browser 7 [''leaderboard'' \<mapsto> ''{''] = Inl SyntaxError"
    by (simp add: updateLeaderboard_def load_leaderboard_def)
  moreover have "highScore (fst (new_Game defaults 0 [''highScore'' \<mapsto> ''abc''])) = Str ''abc''"
    by code_simp
  moreover have "\<not> greater_js browser 1000000 (Str ''abc'')"
    by code_simp
  moreover have "snd (snd (gameOver browser defaults
        (fst (new_Game defaults 0 [''leaderboard'' \<mapsto> ''{''])))) = Some SyntaxError"
    by code_simp
  ultimately show ?thesis
    by simp
qed

text \<open>
  C5, amended. Loading state that is missing never fails: with nothing (or the empty
  text) under \<open>highScore\<close> the high score is \<open>0\<close>, and with nothing under \<open>leaderboard\<close>
  the leaderboard is the empty list, so that the first recorded score is stored alone.
  Corrupt state is not taken as absent: any other text under \<open>highScore\<close> is the high
  score as it stands, and a text under \<open>leaderboard\<close> that \<open>JSON.parse\<close> rejects makes
  \<open>showLeaderboard\<close>, \<open>updateLeaderboard\<close> and \<open>gameOver\<close> throw the syntax error.
\<close>

theorem C5_missing_state_defaults:
  "(st ''highScore'' = None \<or> st ''highScore'' = Some [] \<longrightarrow>
      highScore (fst (new_Game s now st)) = Num 0)
   \<and> (st ''highScore'' = Some t \<and> t \<noteq> [] \<longrightarrow>
      highScore (fst (new_Game s now st)) = Str t)
   \<and> (st ''leaderboard'' = None \<and> JSON_parse P ''null'' = Some JNull \<longrightarrow>
      showLeaderboard P st = Inr []
      \<and> updateLeaderboard P sc st =
          Inr (st(''leaderboard'' \<mapsto> JSON_stringify P (JArr [JNum sc]))))
   \<and> (st ''leaderboard'' = Some t \<and> JSON_parse P t = None \<longrightarrow>
      showLeaderboard P st = Inl SyntaxError
      \<and> updateLeaderboard P sc st = Inl SyntaxError
      \<and> snd (snd (gameOver P s (g\<lparr> localStorage := st \<rparr>))) = Some SyntaxError)"
proof -
  have a: "highScore (fst (new_Game s now st)) = Num 0"
    if "st ''highScore'' = None \<or> st ''highScore'' = Some []"
    using that by (auto simp add: new_Game_def load_highScore_def)
  have b: "highScore (fst (new_Game s now st)) = Str t"
    if "st ''highScore'' = Some t" and "t \<noteq> []"
    using that by (simp add: new_Game_def load_highScore_def)
  have c: "showLeaderboard P st = Inr []
      \<and> updateLeaderboard P sc st =
          Inr (st(''leaderboard'' \<mapsto> JSON_stringify P (JArr [JNum sc])))"
    if "st ''leaderboard'' = None" and "JSON_parse P ''null'' = Some JNull"
    using load_leaderboard_missing [of st P] that
      updateLeaderboard_numbers [of P st "[]" sc]
    by (simp add: showLeaderboard_def)
  have d: "showLeaderboard P st = Inl SyntaxError
      \<and> updateLeaderboard P sc st = Inl SyntaxError
      \<and> snd (snd (gameOver P s (g\<lparr> localStorage := st \<rparr>))) = Some SyntaxError"
    if "st ''leaderboard'' = Some t" and "JSON_parse P t = None"
    using load_leaderboard_rejected [of st t P] that
    by (simp add: showLeaderboard_def updateLeaderboard_def gameOver_def)
  from a b c d show ?thesis
    by blast
qed

theorem C5_missing_state_defaults_witness:
  "highScore (fst (new_Game defaults 0 Map.empty)) = Num 0
   \<and> highScore (fst (new_Game defaults 0 [''highScore'' \<mapsto> ''''])) = Num 0
   \<and> highScore (fst (new_Game defaults 0 [''highScore'' \<mapsto> ''120''])) = Str ''120''
   \<and> showLeaderboard browser Map.empty = Inr []
   \<and> updateLeaderboard browser 7 Map.empty = Inr [''leaderboard'' \<mapsto> ''[7]'']
   \<and> showLeaderboard browser [''leaderboard'' \<mapsto> ''{''] = Inl SyntaxError
   \<and> snd (snd (gameOver browser defaults (started\<lparr> localStorage := [''leaderboard'' \<mapsto> ''{''] \<rparr>)))
       = Some SyntaxError"
proof -
  have p: "JSON_parse browser ''null'' = Some JNull" "JSON_parse browser ''{'' = None"
    "JSON_stringify browser (JArr [JNum 7]) = ''[7]''"
    by code_simp+
  from C5_missing_state_defaults [where st = Map.empty and s = defaults and now = 0
      and P = browser and sc = 7]
  have a: "highScore (fst (new_Game defaults 0 Map.empty)) = Num 0"
    "showLeaderboard browser Map.empty = Inr []"
    "updateLeaderboard browser 7 Map.empty = Inr [''leaderboard'' \<mapsto> ''[7]'']"
    using p by simp_all
  from C5_missing_state_defaults [where st = "[''highScore'' \<mapsto> '''']" and s = defaults
      and now = 0]
  have b: "highScore (fst (new_Game defaults 0 [''highScore'' \<mapsto> ''''])) = Num 0"
    by simp
  from C5_missing_state_defaults [where st = "[''highScore'' \<mapsto> ''120'']" and t = "''120''"
      and s = defaults and now = 0]
  have c: "highScore (fst (new_Game defaults 0 [''highScore'' \<mapsto> ''120''])) = Str ''120''"
    by simp
  from C5_missing_state_defaults [where st = "[''leaderboard'' \<mapsto> ''{'']" and t = "''{''"
      and s = defaults and P = browser and g = started]
  have d: "showLeaderboard browser [''leaderboard'' \<mapsto> ''{''] = Inl SyntaxError"
    "snd (snd (gameOver browser defaults (started\<lparr> localStorage := [''leaderboard'' \<mapsto> ''{''] \<rparr>)))
       = Some SyntaxError"
    using p by simp_all
  from a b c d show ?thesis
    by simp
qed


text \<open>
  C6. Recording the scores \<open>50, 200, 10, 300, 150, 400\<close> one game after the other on an
  empty store leaves the text \<open>[400,300,200,150,50]\<close> under \<open>leaderboard\<close>, which reads
  back as that list. In general, when the stored leaderboard is a list of numbers, an
  update stores the first five of the list sorted in descending order with the new
  score in it: at most five entries, in descending order, taken from a permutation of
  the old entries and the score. Whatever was stored, a list that an update stores has
  at most five entries.
\<close>

theorem C6_leaderboard:
  "(case record_scores browser [50, 200, 10, 300, 150, 400] Map.empty of
      Inl e \<Rightarrow> None | Inr st \<Rightarrow> st ''leaderboard'') = Some ''[400,300,200,150,50]''
   \<and> (case record_scores browser [50, 200, 10, 300, 150, 400] Map.empty of
      Inl e \<Rightarrow> Inl e | Inr st \<Rightarrow> load_leaderboard browser st)
       = Inr [JNum 400, JNum 300, JNum 200, JNum 150, JNum 50]
   \<and> (load_leaderboard P st = Inr (map JNum ns) \<longrightarrow>
        updateLeaderboard P sc st =
          Inr (st(''leaderboard'' \<mapsto>
            JSON_stringify P (JArr (map JNum (take 5 (sort_numbers (ns @ [sc])))))))
        \<and> length (take 5 (sort_numbers (ns @ [sc]))) \<le> 5
        \<and> sorted_wrt (\<ge>) (take 5 (sort_numbers (ns @ [sc])))
        \<and> mset (sort_numbers (ns @ [sc])) = add_mset sc (mset ns))
   \<and> (updateLeaderboard P sc st = Inr st' \<longrightarrow>
        (\<exists>vs. st' ''leaderboard'' = Some (JSON_stringify P (JArr vs)) \<and> length vs \<le> 5))"
proof -
  have a: "(case record_scores browser [50, 200, 10, 300, 150, 400] Map.empty of
      Inl e \<Rightarrow> None | Inr st \<Rightarrow> st ''leaderboard'') = Some ''[400,300,200,150,50]''"
    by code_simp
  have b: "(case record_scores browser [50, 200, 10, 300, 150, 400] Map.empty of
      Inl e \<Rightarrow> Inl e | Inr st \<Rightarrow> load_leaderboard browser st)
       = Inr [JNum 400, JNum 300, JNum 200, JNum 150, JNum 50]"
    by code_simp
  have c: "sorted_wrt (\<ge>) (take 5 (sort_numbers (ns @ [sc])))"
    by (rule sorted_wrt_take) (rule sort_numbers_sorted)
  have d: "mset (sort_numbers (ns @ [sc])) = add_mset sc (mset ns)"
    by (simp add: sort_numbers_mset)
  from a b c d updateLeaderboard_numbers [of P st ns sc]
    updateLeaderboard_stored [of P sc st st']
  show ?thesis
    by simp
qed

theorem C6_leaderboard_witness:
  "load_leaderboard browser [''leaderboard'' \<mapsto> ''[300,200,100,50,10]'']
     = Inr (map JNum [300, 200, 100, 50, 10])
   \<and> updateLeaderboard browser 150 [''leaderboard'' \<mapsto> ''[300,200,100,50,10]'']
     = Inr [''leaderboard'' \<mapsto> ''[300,200,150,100,50]'']
   \<and> sorted_wrt (\<ge>) [300, 200, 150, 100, 50 :: number]
   \<and> (\<exists>vs. [''leaderboard'' \<mapsto> ''[300,200,150,100,50]''] ''leaderboard''
          = Some (JSON_stringify browser (JArr vs)) \<and> length vs \<le> 5)"
proof -
  let ?st = "[''leaderboard'' \<mapsto> ''[300,200,100,50,10]'']"
  have l: "load_leaderboard browser ?st = Inr (map JNum [300, 200, 100, 50, 10])"
    by code_simp
  have s: "take 5 (sort_numbers ([300, 200, 100, 50, 10] @ [150])) = [300, 200, 150, 100, 50]"
    by simp
  have j: "JSON_stringify browser (JArr (map JNum [300, 200, 150, 100, 50]))
      = ''[300,200,150,100,50]''"
    by code_simp
  from C6_leaderboard [of browser ?st "[300, 200, 100, 50, 10]" 150] l
  have u: "updateLeaderboard browser 150 ?st =
      Inr (?st(''leaderboard'' \<mapsto> JSON_stringify browser
        (JArr (map JNum (take 5 (sort_numbers ([300, 200, 100, 50, 10] @ [150])))))))"
    and o: "sorted_wrt (\<ge>) (take 5 (sort_numbers ([300, 200, 100, 50, 10] @ [150])))"
    by blast+
  from u have u': "updateLeaderboard browser 150 ?st
      = Inr [''leaderboard'' \<mapsto> ''[300,200,150,100,50]'']"
    unfolding s j by simp
  from C6_leaderboard [of browser ?st "[300, 200, 100, 50, 10]" 150
      "[''leaderboard'' \<mapsto> ''[300,200,150,100,50]'']"] u'
  have e: "\<exists>vs. [''leaderboard'' \<mapsto> ''[300,200,150,100,50]''] ''leaderboard''
          = Some (JSON_stringify browser (JArr vs)) \<and> length vs \<le> 5"
    by blast
  from l u' o e show ?thesis
    unfolding s by simp
qed

end
